theory Spec2Isabelle
  imports Complex_Main "HOL-Library.Char_ord" "HOL-Library.List_Lexorder"
begin

section \<open>Exceptions\<close>

text \<open>
  The exceptions that the code of \<^verbatim>\<open>pyinterpret/model/model.py\<close> raises itself
  (\<^verbatim>\<open>exceptions.ModelError\<close>, \<^verbatim>\<open>ValueError\<close>) and the ones numpy and
  scikit-learn raise underneath it (\<^verbatim>\<open>IndexError\<close>, \<^verbatim>\<open>TypeError\<close>,
  and scikit-learn's own \<^verbatim>\<open>ValueError\<close>).
\<close>

datatype error = ModelError | ValueError | IndexError | TypeError

section \<open>numpy arrays\<close>

text \<open>
  An \<^verbatim>\<open>numpy.ndarray\<close> has one dtype for all its elements. The model keeps the
  shape tuple and the elements in row-major order, tagged with the dtype: strings,
  integers, floats (finite values only: nothing below does arithmetic on them), and the
  object array whose elements are all \<^verbatim>\<open>None\<close>, which is what
  \<^verbatim>\<open>np.array(None)\<close> builds.
\<close>

datatype elems = StrData "string list" | IntData "int list" | FloatData "real list" | NoneData nat

datatype ndarray = NdArray (shape: "nat list") (elems: elems)

fun n_elems :: "elems \<Rightarrow> nat" where
  "n_elems (StrData xs) = length xs"
| "n_elems (IntData xs) = length xs"
| "n_elems (FloatData xs) = length xs"
| "n_elems (NoneData n) = n"

fun take_elems :: "nat \<Rightarrow> elems \<Rightarrow> elems" where
  "take_elems k (StrData xs) = StrData (take k xs)"
| "take_elems k (IntData xs) = IntData (take k xs)"
| "take_elems k (FloatData xs) = FloatData (take k xs)"
| "take_elems k (NoneData n) = NoneData (min k n)"

text \<open>A well-formed array holds as many elements as its shape says.\<close>

definition wf_ndarray :: "ndarray \<Rightarrow> bool" where
  "wf_ndarray a = (n_elems (elems a) = prod_list (shape a))"

text \<open>\<^verbatim>\<open>np.array(None)\<close>: a 0-d object array holding \<^verbatim>\<open>None\<close>.\<close>

definition np_array_None :: ndarray where
  "np_array_None = NdArray [] (NoneData 1)"

text \<open>
  \<^verbatim>\<open>a.any()\<close>: whether some element is truthy. An integer or a float is truthy
  when it is not zero; the reduction of an object array of \<^verbatim>\<open>None\<close> is
  \<^verbatim>\<open>None\<close>, which is falsy; numpy has no such reduction for its string dtype
  and raises \<^verbatim>\<open>TypeError\<close>. An empty array has no truthy element.
\<close>

fun any_elems :: "elems \<Rightarrow> error + bool" where
  "any_elems (StrData xs) = Inl TypeError"
| "any_elems (IntData xs) = Inr (list_ex (\<lambda>x. x \<noteq> 0) xs)"
| "any_elems (FloatData xs) = Inr (list_ex (\<lambda>x. x \<noteq> 0) xs)"
| "any_elems (NoneData n) = Inr False"

definition nd_any :: "ndarray \<Rightarrow> error + bool" where
  "nd_any a = any_elems (elems a)"

text \<open>
  \<^verbatim>\<open>a[0]\<close>: the first entry along the first axis, an array of one dimension
  less. Indexing a 0-d array, or an array whose first axis has length 0, raises
  \<^verbatim>\<open>IndexError\<close>.
\<close>

fun getitem0 :: "ndarray \<Rightarrow> error + ndarray" where
  "getitem0 (NdArray [] es) = Inl IndexError"
| "getitem0 (NdArray (n # ds) es) =
     (if n = 0 then Inl IndexError else Inr (NdArray ds (take_elems (prod_list ds) es)))"

text \<open>
  \<^verbatim>\<open>np.unique(a)\<close>: the sorted distinct elements of the flattened array. Sorting
  two or more \<^verbatim>\<open>None\<close> objects compares them, which raises
  \<^verbatim>\<open>TypeError\<close>.
\<close>

fun np_unique :: "elems \<Rightarrow> error + elems" where
  "np_unique (StrData xs) = Inr (StrData (sort (remdups xs)))"
| "np_unique (IntData xs) = Inr (IntData (sort (remdups xs)))"
| "np_unique (FloatData xs) = Inr (FloatData (sort (remdups xs)))"
| "np_unique (NoneData n) = (if n \<le> 1 then Inr (NoneData n) else Inl TypeError)"

text \<open>\<^verbatim>\<open>np.squeeze(a)\<close>: drops every axis of length 1.\<close>

definition np_squeeze :: "ndarray \<Rightarrow> ndarray" where
  "np_squeeze a = NdArray (filter (\<lambda>d. d \<noteq> 1) (shape a)) (elems a)"

section \<open>The scikit-learn encoders\<close>

text \<open>
  \<^verbatim>\<open>column_or_1d\<close>, which \<^verbatim>\<open>LabelEncoder\<close> applies to its input first:
  a 1-d array or a single column is flattened, any other shape raises
  \<^verbatim>\<open>ValueError\<close>.
\<close>

definition column_or_1d :: "ndarray \<Rightarrow> error + elems" where
  "column_or_1d y =
     (if length (shape y) = 1 then Inr (elems y)
      else if length (shape y) = 2 \<and> shape y ! 1 = 1 then Inr (elems y)
      else Inl ValueError)"

fun index_of :: "'a \<Rightarrow> 'a list \<Rightarrow> nat" where
  "index_of x [] = 0"
| "index_of x (c # cs) = (if x = c then 0 else Suc (index_of x cs))"

text \<open>
  \<^verbatim>\<open>LabelEncoder().fit_transform(y)\<close>: the classes are
  \<^verbatim>\<open>np.unique(y)\<close>, and every label is replaced by its position among them.
\<close>

definition encode_labels :: "'a::linorder list \<Rightarrow> nat list" where
  "encode_labels xs = map (\<lambda>x. index_of x (sort (remdups xs))) xs"

definition label_encoder_fit_transform :: "ndarray \<Rightarrow> error + nat list" where
  "label_encoder_fit_transform y =
     (case column_or_1d y of
        Inl e \<Rightarrow> Inl e
      | Inr (StrData xs) \<Rightarrow> Inr (encode_labels xs)
      | Inr (IntData xs) \<Rightarrow> Inr (encode_labels xs)
      | Inr (FloatData xs) \<Rightarrow> Inr (encode_labels xs)
      | Inr (NoneData n) \<Rightarrow> (if n \<le> 1 then Inr (replicate n 0) else Inl TypeError))"

text \<open>
  \<^verbatim>\<open>OneHotEncoder().fit_transform(labels[:, np.newaxis]).todense()\<close>: the
  categories of the single column are its sorted distinct codes; row \<open>i\<close> holds 1.0 in
  the column of the code of sample \<open>i\<close> and 0.0 elsewhere. No sample at all raises
  \<^verbatim>\<open>ValueError\<close>.
\<close>

definition one_hot_row :: "nat list \<Rightarrow> nat \<Rightarrow> real list" where
  "one_hot_row cats c = map (\<lambda>k. if c = k then 1 else 0) cats"

definition one_hot_encoder_fit_transform :: "nat list \<Rightarrow> error + ndarray" where
  "one_hot_encoder_fit_transform labels =
     (if labels = [] then Inl ValueError
      else let cats = sort (remdups labels)
           in Inr (NdArray [length labels, length cats]
                     (FloatData (concat (map (one_hot_row cats) labels)))))"

section \<open>StaticTypes\<close>

text \<open>
  Modelled from the spec: \<^verbatim>\<open>StaticTypes.model_types\<close>. The module
  \<^verbatim>\<open>util/static_types.py\<close> (\<^verbatim>\<open>StaticTypes\<close>,
  \<^verbatim>\<open>return_data_type\<close>) is not among the sources; the spec gives the model
  type as classifier or regressor, or unknown.
\<close>

datatype model_types = classifier | regressor

text \<open>
  Modelled from the spec: \<^verbatim>\<open>StaticTypes.output_types\<close>, the inferred element
  type of a single raw prediction: string, int or float, or unknown.
\<close>

datatype output_types = ot_string | ot_int | ot_float

text \<open>
  Modelled from the spec: the sentinels \<^verbatim>\<open>StaticTypes.unknown\<close> and
  \<^verbatim>\<open>StaticTypes.not_applicable\<close>, which an attribute holds in place of an
  inferred value.
\<close>

datatype 'a static = unknown | not_applicable | Val 'a

text \<open>
  Modelled from the spec: the truth value Python gives an attribute in
  \<^verbatim>\<open>not self.probability\<close>. The sentinels of \<^verbatim>\<open>StaticTypes\<close> are truthy:
  the spec has the identity transform chosen in every unknown state, and the comment in
  \<^verbatim>\<open>return_transformer_func\<close> says \<^verbatim>\<open>If unknown, should be true\<close>.
\<close>

fun py_truth :: "bool static \<Rightarrow> bool" where
  "py_truth (Val b) = b"
| "py_truth unknown = True"
| "py_truth not_applicable = True"

text \<open>
  Modelled from the spec: \<^verbatim>\<open>return_data_type\<close>, absent from the sources, gives the
  element type of a single raw prediction: string, int or float, and unknown for anything
  else.
\<close>

fun return_data_type :: "ndarray \<Rightarrow> output_types static" where
  "return_data_type (NdArray [] (StrData xs)) = Val ot_string"
| "return_data_type (NdArray [] (IntData xs)) = Val ot_int"
| "return_data_type (NdArray [] (FloatData xs)) = Val ot_float"
| "return_data_type a = unknown"

section \<open>The Model class\<close>

text \<open>
  A Python attribute can hold any object; \<^verbatim>\<open>model_report\<close> tests
  \<^verbatim>\<open>isinstance(self.examples, np.ndarray)\<close>.
\<close>

datatype pyobject = Ndarray ndarray | NotNdarray

fun isinstance_ndarray :: "pyobject \<Rightarrow> bool" where
  "isinstance_ndarray (Ndarray a) = True"
| "isinstance_ndarray NotNdarray = False"

text \<open>
  The two functions the code stores in \<^verbatim>\<open>self.formatter\<close>:
  \<^verbatim>\<open>lambda x: x\<close> and \<^verbatim>\<open>self.predict_function_transformer\<close>.
\<close>

datatype formatter = identity_lambda | one_hot_transformer

text \<open>
  One line of \<^verbatim>\<open>model_report\<close>: the label of the line and the value formatted into
  it.
\<close>

datatype report =
    Example ndarray
  | Outputs ndarray
  | Model_type "model_types static"
  | Output_Var_Type "output_types static"
  | Output_Shape "nat list static"
  | N_Classes "nat static"
  | Input_Shape "nat list static"
  | Probability "bool static"

text \<open>The calls made on \<^verbatim>\<open>self.logger\<close>, in order.\<close>

datatype log_call = Warn string | Debug report

record Model =
  log_level :: int
  logger :: "log_call list"
  examples :: pyobject
  model_type :: "model_types static"
  output_var_type :: "output_types static"
  output_shape :: "nat list static"
  n_classes :: "nat static"
  input_shape :: "nat list static"
  probability :: "bool static"
  formatter :: formatter

text \<open>\<^verbatim>\<open>Model.__init__(self, log_level=30)\<close>\<close>

definition Model_init :: "int \<Rightarrow> Model" where
  "Model_init lvl =
     \<lparr> log_level = lvl,
       logger = [],
       examples = Ndarray np_array_None,
       model_type = unknown,
       output_var_type = unknown,
       output_shape = unknown,
       n_classes = unknown,
       input_shape = unknown,
       probability = unknown,
       formatter = identity_lambda \<rparr>"

text \<open>
  \<^verbatim>\<open>set_examples\<close>: \<^verbatim>\<open>self.examples = np.array(examples)\<close>; the argument here
  is the array that \<^verbatim>\<open>np.array\<close> returns.
\<close>

definition set_examples :: "Model \<Rightarrow> ndarray \<Rightarrow> Model" where
  "set_examples self exs = self\<lparr>examples := Ndarray exs\<rparr>"

text \<open>
  \<^verbatim>\<open>predict_function_transformer\<close>: label-encode, one-hot encode, make dense,
  squeeze.
\<close>

definition predict_function_transformer :: "ndarray \<Rightarrow> error + ndarray" where
  "predict_function_transformer output =
     (case label_encoder_fit_transform output of
        Inl e \<Rightarrow> Inl e
      | Inr labels \<Rightarrow>
          (case one_hot_encoder_fit_transform labels of
             Inl e \<Rightarrow> Inl e
           | Inr dense \<Rightarrow> Inr (np_squeeze dense)))"

text \<open>Calling the function stored in \<^verbatim>\<open>self.formatter\<close>.\<close>

fun apply_formatter :: "formatter \<Rightarrow> ndarray \<Rightarrow> error + ndarray" where
  "apply_formatter identity_lambda x = Inr x"
| "apply_formatter one_hot_transformer x = predict_function_transformer x"

text \<open>\<^verbatim>\<open>return_transformer_func\<close>\<close>

definition return_transformer_func :: "Model \<Rightarrow> formatter" where
  "return_transformer_func self =
     (if model_type self = Val classifier \<and> \<not> py_truth (probability self)
      then one_hot_transformer
      else identity_lambda)"

text \<open>
  The abstract method \<^verbatim>\<open>predict\<close> is a parameter: a function from the batch to
  the outputs, or to the exception it raises.
\<close>

type_synonym predict = "ndarray \<Rightarrow> error + ndarray"

text \<open>\<^verbatim>\<open>model_report\<close>\<close>

definition attribute_lines :: "Model \<Rightarrow> report list" where
  "attribute_lines self =
     [Model_type (model_type self),
      Output_Var_Type (output_var_type self),
      Output_Shape (output_shape self),
      N_Classes (n_classes self),
      Input_Shape (input_shape self),
      Probability (probability self)]"

definition model_report :: "predict \<Rightarrow> Model \<Rightarrow> ndarray \<Rightarrow> error + report list" where
  "model_report predict self exs =
     (if isinstance_ndarray (examples self) then
        (case predict exs of
           Inl e \<Rightarrow> Inl e
         | Inr raw_predictions \<Rightarrow>
             (case getitem0 exs of
                Inl e \<Rightarrow> Inl e
              | Inr example0 \<Rightarrow>
                  (case getitem0 raw_predictions of
                     Inl e \<Rightarrow> Inl e
                   | Inr output0 \<Rightarrow>
                       Inr ([Example example0, Outputs output0] @ attribute_lines self))))
      else Inr (attribute_lines self))"

text \<open>
  \<^verbatim>\<open>check_output_signature\<close> assigns to the attributes of \<^verbatim>\<open>self\<close> one
  by one and can raise in between, so each part of it returns the exception raised, if
  any, together with the object as the assignments made so far have left it.
\<close>

text \<open>The message of the warning of lines 114 and 115 (two literals, joined as written).\<close>

definition regressor_warning :: string where
  "regressor_warning = ''Inferring model type to be a regressordue to 1D array of floats''"

text \<open>
  Lines 93 to 117, the branch \<^verbatim>\<open>len(self.output_shape) == 1\<close>: the type of
  \<^verbatim>\<open>outputs[0]\<close> decides between a classifier of labels, a regressor, and no
  inference.
\<close>

definition infer_1d :: "Model \<Rightarrow> ndarray \<Rightarrow> (error + unit) \<times> Model" where
  "infer_1d self outputs =
     (case getitem0 outputs of
        Inl e \<Rightarrow> (Inl e, self)
      | Inr example_output \<Rightarrow>
          (let self1 = self\<lparr>output_var_type := return_data_type example_output\<rparr>
           in if output_var_type self1 = Val ot_string \<or> output_var_type self1 = Val ot_int then
                (let self2 = self1\<lparr>model_type := Val classifier\<rparr>;
                     self3 = self2\<lparr>probability := Val False\<rparr>
                 in case np_unique (elems outputs) of
                      Inl e \<Rightarrow> (Inl e, self3)
                    | Inr u \<Rightarrow> (Inr (), self3\<lparr>n_classes := Val (n_elems u)\<rparr>))
              else if output_var_type self1 = Val ot_float then
                (Inr (), self1\<lparr>model_type := Val regressor,
                               n_classes := Val 1,
                               probability := not_applicable,
                               logger := logger self1 @ [Warn regressor_warning]\<rparr>)
              else (Inr (), self1)))"

text \<open>
  Lines 119 to 123, the branch \<^verbatim>\<open>len(self.output_shape) == 2\<close>; the model type
  and the number of classes are assigned before \<^verbatim>\<open>outputs[0][0]\<close> is read.
\<close>

definition infer_2d :: "Model \<Rightarrow> ndarray \<Rightarrow> (error + unit) \<times> Model" where
  "infer_2d self outputs =
     (let self1 = self\<lparr>model_type := Val classifier\<rparr>;
          self2 = self1\<lparr>n_classes := Val (shape outputs ! 1)\<rparr>
      in case getitem0 outputs of
           Inl e \<Rightarrow> (Inl e, self2)
         | Inr row0 \<Rightarrow>
             (case getitem0 row0 of
                Inl e \<Rightarrow> (Inl e, self2)
              | Inr example_output \<Rightarrow>
                  (let self3 = self2\<lparr>output_var_type := return_data_type example_output\<rparr>
                   in (Inr (), self3\<lparr>probability :=
                                        Val (output_var_type self3 = Val ot_float)\<rparr>))))"

text \<open>
  Lines 85 to 125: the check of the examples, the call \<^verbatim>\<open>self(examples)\<close>
  (which \<^verbatim>\<open>__call__\<close> hands to \<^verbatim>\<open>predict\<close>), the two shapes, and the
  branches on the rank of the output.
\<close>

definition infer_signature :: "predict \<Rightarrow> Model \<Rightarrow> ndarray \<Rightarrow> (error + unit) \<times> Model" where
  "infer_signature predict self exs =
     (case nd_any exs of
        Inl e \<Rightarrow> (Inl e, self)
      | Inr some \<Rightarrow>
          if \<not> some then (Inl ModelError, self)
          else
            (case predict exs of
               Inl e \<Rightarrow> (Inl e, self)
             | Inr outputs \<Rightarrow>
                 (let self1 = self\<lparr>input_shape := Val (shape exs)\<rparr>;
                      self2 = self1\<lparr>output_shape := Val (shape outputs)\<rparr>
                  in if length (shape outputs) = 1 then infer_1d self2 outputs
                     else if length (shape outputs) = 2 then infer_2d self2 outputs
                     else (Inl ValueError, self2))))"

text \<open>
  \<^verbatim>\<open>check_output_signature\<close>: lines 85 to 125 as above, then lines 127 to 131:
  the formatter, the report, and its lines sent to the logger at debug level.
\<close>

definition check_output_signature :: "predict \<Rightarrow> Model \<Rightarrow> ndarray \<Rightarrow> (error + unit) \<times> Model" where
  "check_output_signature predict self exs =
     (case infer_signature predict self exs of
        (Inl e, self1) \<Rightarrow> (Inl e, self1)
      | (Inr u, self1) \<Rightarrow>
          (let self2 = self1\<lparr>formatter := return_transformer_func self1\<rparr>
           in case model_report predict self2 exs of
                Inl e \<Rightarrow> (Inl e, self2)
              | Inr reports \<Rightarrow> (Inr (), self2\<lparr>logger := logger self2 @ map Debug reports\<rparr>)))"

text \<open>A \<^verbatim>\<open>predict\<close> that returns the same array whatever the batch.\<close>

definition predict_const :: "ndarray \<Rightarrow> predict" where
  "predict_const out exs = Inr out"

section \<open>Concrete inputs\<close>

definition batch_2x2 :: ndarray where
  "batch_2x2 = NdArray [2, 2] (IntData [1, 2, 3, 4])"

definition labels_out :: ndarray where
  "labels_out = NdArray [2] (StrData [''banana'', ''apple''])"

definition floats_out :: ndarray where
  "floats_out = NdArray [2] (FloatData [1/2, 3])"

definition scores_out :: ndarray where
  "scores_out = NdArray [2, 3] (FloatData [1/2, 1/4, 1/4, 0, 1, 0])"

definition cube_out :: ndarray where
  "cube_out = NdArray [2, 1, 1] (FloatData [1/2, 3])"

section \<open>Label encoding\<close>

lemma index_of_less: "x \<in> set cs \<Longrightarrow> index_of x cs < length cs"
  by (induction cs) auto

lemma nth_index_of: "x \<in> set cs \<Longrightarrow> cs ! index_of x cs = x"
  by (induction cs) auto

lemma index_of_nth: "distinct cs \<Longrightarrow> i < length cs \<Longrightarrow> index_of (cs ! i) cs = i"
proof (induction cs arbitrary: i)
  case Nil
  then show ?case by simp
next
  case (Cons c cs)
  show ?case
  proof (cases i)
    case 0
    then show ?thesis by simp
  next
    case (Suc j)
    with Cons.prems have "j < length cs" "cs ! j \<in> set cs" "c \<notin> set cs" by auto
    with Cons.IH [of j] Cons.prems Suc show ?thesis by auto
  qed
qed

lemma index_of_eq_iff:
  "distinct cs \<Longrightarrow> x \<in> set cs \<Longrightarrow> j < length cs \<Longrightarrow> (index_of x cs = j) = (x = cs ! j)"
  using index_of_nth nth_index_of by metis

text \<open>The codes of the label encoder are exactly \<open>0, \<dots>, k - 1\<close> for \<open>k\<close> classes.\<close>

lemma set_encode_labels: "set (encode_labels xs) = {0..<length (remdups xs)}"
proof -
  let ?cs = "sort (remdups xs)"
  have d: "distinct ?cs" and l: "length ?cs = length (remdups xs)"
    by simp_all
  have "set (encode_labels xs) = (\<lambda>x. index_of x ?cs) ` set ?cs"
    by (simp add: encode_labels_def)
  also have "\<dots> = {0..<length ?cs}"
  proof (intro equalityI subsetI)
    fix i assume "i \<in> (\<lambda>x. index_of x ?cs) ` set ?cs"
    then show "i \<in> {0..<length ?cs}" using index_of_less [of _ ?cs] by auto
  next
    fix i assume "i \<in> {0..<length ?cs}"
    then have i: "i < length ?cs" by simp
    then have "index_of (?cs ! i) ?cs = i" using d by (rule index_of_nth [rotated])
    moreover have "?cs ! i \<in> set ?cs" using i by (rule nth_mem)
    ultimately show "i \<in> (\<lambda>x. index_of x ?cs) ` set ?cs" by force
  qed
  finally show ?thesis using l by simp
qed

lemma categories_encode_labels: "sort (remdups (encode_labels xs)) = [0..<length (remdups xs)]"
proof -
  have "sort (remdups (encode_labels xs)) = sorted_list_of_set (set (encode_labels xs))"
    by (simp add: sorted_list_of_set_sort_remdups)
  then show ?thesis by (simp add: set_encode_labels)
qed

lemma one_hot_row_index_of:
  assumes "distinct cs" "x \<in> set cs"
  shows "one_hot_row [0..<length cs] (index_of x cs) = map (\<lambda>c. if x = c then 1 else 0) cs"
proof (rule nth_equalityI)
  show "length (one_hot_row [0..<length cs] (index_of x cs)) =
        length (map (\<lambda>c. if x = c then 1 else 0) cs)"
    by (simp add: one_hot_row_def)
next
  fix j assume "j < length (one_hot_row [0..<length cs] (index_of x cs))"
  then have j: "j < length cs" by (simp add: one_hot_row_def)
  then show "one_hot_row [0..<length cs] (index_of x cs) ! j =
             map (\<lambda>c. if x = c then 1 else 0) cs ! j"
    using index_of_eq_iff [OF assms j] by (simp add: one_hot_row_def)
qed

text \<open>
  The two encoders composed: row \<open>i\<close> is the indicator of label \<open>i\<close> over the sorted
  distinct labels.
\<close>

lemma one_hot_encode_labels:
  assumes ne: "xs \<noteq> []"
  shows "one_hot_encoder_fit_transform (encode_labels xs) =
     Inr (NdArray [length xs, length (remdups xs)]
            (FloatData (concat (map (\<lambda>x. map (\<lambda>c. if x = c then 1 else 0) (sort (remdups xs))) xs))))"
proof -
  let ?cs = "sort (remdups xs)"
  have l: "length ?cs = length (remdups xs)" by simp
  have rows: "map (one_hot_row [0..<length (remdups xs)]) (encode_labels xs)
        = map (\<lambda>x. map (\<lambda>c. if x = c then 1 else 0) ?cs) xs"
    unfolding encode_labels_def map_map
  proof (rule map_cong [OF refl])
    fix x assume "x \<in> set xs"
    then have "x \<in> set ?cs" by simp
    from one_hot_row_index_of [OF _ this]
    show "(one_hot_row [0..<length (remdups xs)] \<circ> (\<lambda>x. index_of x ?cs)) x
          = map (\<lambda>c. if x = c then 1 else 0) ?cs"
      by (simp add: l)
  qed
  have "encode_labels xs \<noteq> []" and "length (encode_labels xs) = length xs"
    using ne by (simp_all add: encode_labels_def)
  then show ?thesis
    by (simp add: one_hot_encoder_fit_transform_def categories_encode_labels rows)
qed

lemma one_hot_encode_no_labels:
  "one_hot_encoder_fit_transform (encode_labels []) = Inl ValueError"
  by (simp add: one_hot_encoder_fit_transform_def encode_labels_def)

text \<open>
  Each row holds exactly one 1 and otherwise 0, and \<^verbatim>\<open>np.squeeze\<close> leaves a
  matrix of at least two rows and two columns as it is: with two labels or more, not all
  equal, \<^verbatim>\<open>predict_function_transformer\<close> returns the one-hot matrix itself.
\<close>

lemma one_hot_row_single_one:
  fixes x :: "'a::linorder"
  assumes "x \<in> set xs"
  shows "length (filter (\<lambda>v. v = (1::real))
           (map (\<lambda>c. if x = c then 1 else 0) (sort (remdups xs)))) = 1"
    and "set (map (\<lambda>c. if x = c then 1 else 0) (sort (remdups xs))) \<subseteq> {0, 1::real}"
proof -
  let ?cs = "sort (remdups xs)"
  have "filter (\<lambda>v. v = (1::real)) (map (\<lambda>c. if x = c then 1 else 0) ?cs)
        = map (\<lambda>c. if x = c then 1 else 0) (filter (\<lambda>c. x = c) ?cs)"
    by (induction ?cs) (auto simp: filter_map comp_def)
  moreover have "length (filter (\<lambda>c. x = c) ?cs) = card ({c. x = c} \<inter> set ?cs)"
    by (rule distinct_length_filter) simp
  moreover have "{c. x = c} \<inter> set ?cs = {x}" using assms by auto
  ultimately
  show "length (filter (\<lambda>v. v = (1::real)) (map (\<lambda>c. if x = c then 1 else 0) ?cs)) = 1"
    by simp
  show "set (map (\<lambda>c. if x = c then 1 else 0) ?cs) \<subseteq> {0, 1::real}"
    by auto
qed

lemma np_squeeze_matrix:
  "2 \<le> n \<Longrightarrow> 2 \<le> k \<Longrightarrow> np_squeeze (NdArray [n, k] es) = NdArray [n, k] es"
  by (simp add: np_squeeze_def)

lemma predict_function_transformer_int_matrix:
  assumes "2 \<le> length xs" and "2 \<le> card (set xs)"
  shows "predict_function_transformer (NdArray [length xs] (IntData xs)) =
     Inr (NdArray [length xs, card (set xs)]
            (FloatData (concat (map (\<lambda>x. map (\<lambda>c. if x = c then 1 else 0)
                                              (sort (remdups xs))) xs))))"
proof -
  from assms(1) have ne: "xs \<noteq> []" by auto
  from assms(2) have k: "2 \<le> length (remdups xs)" by (simp add: length_remdups_card_conv)
  show ?thesis
    using np_squeeze_matrix [OF assms(1) k]
    by (simp add: predict_function_transformer_def label_encoder_fit_transform_def
        column_or_1d_def one_hot_encode_labels [OF ne] length_remdups_card_conv)
qed

lemma predict_function_transformer_str_matrix:
  assumes "2 \<le> length xs" and "2 \<le> card (set xs)"
  shows "predict_function_transformer (NdArray [length xs] (StrData xs)) =
     Inr (NdArray [length xs, card (set xs)]
            (FloatData (concat (map (\<lambda>x. map (\<lambda>c. if x = c then 1 else 0)
                                              (sort (remdups xs))) xs))))"
proof -
  from assms(1) have ne: "xs \<noteq> []" by auto
  from assms(2) have k: "2 \<le> length (remdups xs)" by (simp add: length_remdups_card_conv)
  show ?thesis
    using np_squeeze_matrix [OF assms(1) k]
    by (simp add: predict_function_transformer_def label_encoder_fit_transform_def
        column_or_1d_def one_hot_encode_labels [OF ne] length_remdups_card_conv)
qed

section \<open>The steps of check_output_signature\<close>

lemmas check_defs =
  check_output_signature_def infer_signature_def infer_1d_def infer_2d_def nd_any_def
  model_report_def attribute_lines_def return_transformer_func_def predict_const_def
  Model_init_def Let_def

lemma pair_fst_snd: "fst p = a \<Longrightarrow> p = (a, snd p)"
  by (cases p) simp

text \<open>
  A call that returns has passed lines 85 to 125 without an exception; what follows them
  changes the formatter and the logger only.
\<close>

lemma check_output_signature_success:
  assumes "check_output_signature predict self exs = (Inr u, self')"
  obtains self1 reports where
    "infer_signature predict self exs = (Inr (), self1)"
    "model_report predict (self1\<lparr>formatter := return_transformer_func self1\<rparr>) exs = Inr reports"
    "self' = self1\<lparr>formatter := return_transformer_func self1,
                    logger := logger self1 @ map Debug reports\<rparr>"
  using assms
  by (auto simp: check_output_signature_def Let_def split: prod.splits sum.splits)

lemma infer_signature_success:
  assumes "infer_signature predict self exs = (Inr u, self1)"
    and "predict exs = Inr outputs"
  shows "nd_any exs = Inr True"
    and "length (shape outputs) = 1 \<Longrightarrow>
         infer_1d (self\<lparr>input_shape := Val (shape exs), output_shape := Val (shape outputs)\<rparr>) outputs
           = (Inr (), self1)"
    and "length (shape outputs) = 2 \<Longrightarrow>
         infer_2d (self\<lparr>input_shape := Val (shape exs), output_shape := Val (shape outputs)\<rparr>) outputs
           = (Inr (), self1)"
    and "length (shape outputs) = 1 \<or> length (shape outputs) = 2"
  using assms
  by (auto simp: infer_signature_def Let_def split: sum.splits if_splits)

text \<open>The type of the first element is the dtype of the array.\<close>

lemma return_data_type_getitem0:
  assumes "getitem0 outputs = Inr example_output"
  shows "return_data_type example_output = Val ot_string \<Longrightarrow> \<exists>xs. elems outputs = StrData xs"
    and "return_data_type example_output = Val ot_int \<Longrightarrow> \<exists>xs. elems outputs = IntData xs"
    and "return_data_type example_output = Val ot_float \<Longrightarrow> \<exists>xs. elems outputs = FloatData xs"
  using assms
  by (cases outputs; cases "shape outputs"; cases "elems outputs";
      cases example_output; cases "shape example_output"; auto split: if_splits)+

text \<open>
  The check of the examples raises \<^verbatim>\<open>ModelError\<close> when no element of the batch
  is truthy, and leaves the object as it was; a \<^verbatim>\<open>ModelError\<close> from the call
  has no other origin, unless \<^verbatim>\<open>predict\<close> raises it itself.
\<close>

lemma check_output_signature_no_truthy:
  "nd_any exs = Inr False \<Longrightarrow> check_output_signature predict self exs = (Inl ModelError, self)"
  by (simp add: check_output_signature_def infer_signature_def)

lemma getitem0_not_ModelError: "getitem0 a \<noteq> Inl ModelError"
  by (cases a; cases "shape a") auto

lemma np_unique_not_ModelError: "np_unique es \<noteq> Inl ModelError"
  by (cases es) auto

lemma infer_1d_not_ModelError: "fst (infer_1d self outputs) \<noteq> Inl ModelError"
  using getitem0_not_ModelError [of outputs] np_unique_not_ModelError [of "elems outputs"]
  by (auto simp: infer_1d_def Let_def split: sum.splits)

lemma infer_2d_not_ModelError: "fst (infer_2d self outputs) \<noteq> Inl ModelError"
proof (cases "getitem0 outputs")
  case (Inl e)
  with getitem0_not_ModelError [of outputs] show ?thesis
    by (auto simp: infer_2d_def Let_def)
next
  case (Inr row0)
  with getitem0_not_ModelError [of row0] show ?thesis
    by (auto simp: infer_2d_def Let_def split: sum.splits)
qed

lemma infer_signature_ModelError:
  assumes "fst (infer_signature predict self exs) = Inl ModelError"
  shows "nd_any exs = Inr False \<or> predict exs = Inl ModelError"
proof (cases "nd_any exs")
  case (Inl e)
  with assms show ?thesis
    by (cases "elems exs") (auto simp: infer_signature_def nd_any_def)
next
  case any: (Inr some)
  show ?thesis
  proof (cases "predict exs")
    case (Inl e)
    with assms any show ?thesis
      by (auto simp: infer_signature_def split: if_splits)
  next
    case (Inr outputs)
    with assms any infer_1d_not_ModelError infer_2d_not_ModelError show ?thesis
      by (auto simp: infer_signature_def Let_def split: if_splits)
  qed
qed

lemma model_report_ModelError:
  assumes "model_report predict self exs = Inl ModelError"
  shows "predict exs = Inl ModelError"
proof (cases "predict exs")
  case (Inl e)
  with assms show ?thesis
    by (auto simp: model_report_def split: if_splits)
next
  case (Inr raw_predictions)
  with assms getitem0_not_ModelError [of exs] getitem0_not_ModelError [of raw_predictions]
  show ?thesis
    by (auto simp: model_report_def split: if_splits sum.splits)
qed

lemma check_output_signature_ModelError:
  assumes "fst (check_output_signature predict self exs) = Inl ModelError"
  shows "nd_any exs = Inr False \<or> predict exs = Inl ModelError"
proof (cases "infer_signature predict self exs")
  case (Pair r self1)
  show ?thesis
  proof (cases r)
    case (Inl e)
    with assms Pair have "fst (infer_signature predict self exs) = Inl ModelError"
      by (simp add: check_output_signature_def)
    then show ?thesis by (rule infer_signature_ModelError)
  next
    case (Inr u)
    with assms Pair
    have "model_report predict (self1\<lparr>formatter := return_transformer_func self1\<rparr>) exs
            = Inl ModelError"
      by (auto simp: check_output_signature_def Let_def split: sum.splits)
    then show ?thesis using model_report_ModelError by blast
  qed
qed

text \<open>
  The guard of \<^verbatim>\<open>model_report\<close> holds in every state the class itself produces:
  the constructor and \<^verbatim>\<open>set_examples\<close> both store an \<^verbatim>\<open>ndarray\<close>, and
  then a report that is returned starts with the example and output lines.
\<close>

lemma examples_is_ndarray:
  "isinstance_ndarray (examples (Model_init lvl))"
  "isinstance_ndarray (examples (set_examples self a))"
  by (simp_all add: Model_init_def set_examples_def)

lemma model_report_lines:
  assumes "isinstance_ndarray (examples self)"
    and "model_report predict self exs = Inr reports"
  shows "\<exists>example0 output0.
           reports = Example example0 # Outputs output0 # attribute_lines self"
  using assms by (auto simp: model_report_def split: sum.splits)

section \<open>Claims on check_output_signature\<close>

text \<open>
  C1: when \<^verbatim>\<open>predict\<close> returns a 1-D array whose first element is a string or an
  integer, a call of \<^verbatim>\<open>check_output_signature\<close> that returns leaves
  \<open>model_type = classifier\<close>, \<open>probability = False\<close> and \<open>n_classes\<close> equal to the
  number of distinct values among all the outputs.
\<close>

theorem check_output_signature_1d_labels:
  assumes "predict exs = Inr outputs"
    and "length (shape outputs) = 1"
    and "getitem0 outputs = Inr example_output"
    and "return_data_type example_output = Val ot_string \<or>
         return_data_type example_output = Val ot_int"
    and "check_output_signature predict self exs = (Inr (), self')"
  shows "model_type self' = Val classifier \<and>
         probability self' = Val False \<and>
         (\<forall>xs. elems outputs = StrData xs \<longrightarrow> n_classes self' = Val (card (set xs))) \<and>
         (\<forall>xs. elems outputs = IntData xs \<longrightarrow> n_classes self' = Val (card (set xs))) \<and>
         ((\<exists>xs. elems outputs = StrData xs) \<or> (\<exists>xs. elems outputs = IntData xs))"
proof -
  from assms(5) obtain self1 reports where
    i: "infer_signature predict self exs = (Inr (), self1)" and
    s: "self' = self1\<lparr>formatter := return_transformer_func self1,
                      logger := logger self1 @ map Debug reports\<rparr>"
    by (rule check_output_signature_success)
  let ?s = "self\<lparr>input_shape := Val (shape exs), output_shape := Val (shape outputs)\<rparr>"
  have one: "infer_1d ?s outputs = (Inr (), self1)"
    using infer_signature_success(2) [OF i assms(1) assms(2)] .
  from assms(3,4) consider
    xs where "elems outputs = StrData xs" | xs where "elems outputs = IntData xs"
    using return_data_type_getitem0(1,2) by blast
  then have "model_type self1 = Val classifier \<and> probability self1 = Val False \<and>
         (\<forall>xs. elems outputs = StrData xs \<longrightarrow> n_classes self1 = Val (card (set xs))) \<and>
         (\<forall>xs. elems outputs = IntData xs \<longrightarrow> n_classes self1 = Val (card (set xs))) \<and>
         ((\<exists>xs. elems outputs = StrData xs) \<or> (\<exists>xs. elems outputs = IntData xs))"
  proof cases
    case 1
    with one assms(3,4) show ?thesis
      by (auto simp: infer_1d_def Let_def length_remdups_card_conv)
  next
    case 2
    with one assms(3,4) show ?thesis
      by (auto simp: infer_1d_def Let_def length_remdups_card_conv)
  qed
  then show ?thesis by (simp add: s)
qed

text \<open>
  C1 at a concrete input: \<^verbatim>\<open>predict\<close> returns \<^verbatim>\<open>['banana', 'apple']\<close> on a
  batch of two rows.
\<close>

theorem check_output_signature_1d_labels_witness:
  "fst (check_output_signature (predict_const labels_out) (Model_init 30) batch_2x2) = Inr () \<and>
   model_type (snd (check_output_signature (predict_const labels_out) (Model_init 30) batch_2x2))
     = Val classifier \<and>
   probability (snd (check_output_signature (predict_const labels_out) (Model_init 30) batch_2x2))
     = Val False \<and>
   n_classes (snd (check_output_signature (predict_const labels_out) (Model_init 30) batch_2x2))
     = Val 2"
proof -
  let ?r = "check_output_signature (predict_const labels_out) (Model_init 30) batch_2x2"
  have ok: "fst ?r = Inr ()"
    by (simp add: check_defs labels_out_def batch_2x2_def)
  have h1: "predict_const labels_out batch_2x2 = Inr labels_out"
    by (simp add: predict_const_def)
  have h2: "length (shape labels_out) = 1"
    by (simp add: labels_out_def)
  have h3: "getitem0 labels_out = Inr (NdArray [] (StrData [''banana'']))"
    by (simp add: labels_out_def)
  have h4: "return_data_type (NdArray [] (StrData [''banana''])) = Val ot_string \<or>
            return_data_type (NdArray [] (StrData [''banana''])) = Val ot_int"
    by simp
  have e: "elems labels_out = StrData [''banana'', ''apple'']"
    by (simp add: labels_out_def)
  from check_output_signature_1d_labels [OF h1 h2 h3 h4 pair_fst_snd [OF ok]] e
  have "model_type (snd ?r) = Val classifier \<and> probability (snd ?r) = Val False \<and>
        n_classes (snd ?r) = Val (card (set [''banana'', ''apple'']))"
    by simp
  with ok show ?thesis by simp
qed

text \<open>
  C2: when \<^verbatim>\<open>predict\<close> returns a 2-D array of shape \<open>(N, K)\<close>, a call of
  \<^verbatim>\<open>check_output_signature\<close> that returns leaves \<open>model_type = classifier\<close>,
  \<open>n_classes = K\<close>, and \<open>probability\<close> true exactly when the element \<open>[0][0]\<close> is a
  float, and false otherwise.
\<close>

theorem check_output_signature_2d:
  assumes "predict exs = Inr outputs"
    and "shape outputs = [N, K]"
    and "check_output_signature predict self exs = (Inr (), self')"
  shows "model_type self' = Val classifier \<and>
         n_classes self' = Val K \<and>
         (\<exists>row0 example_output.
            getitem0 outputs = Inr row0 \<and> getitem0 row0 = Inr example_output \<and>
            probability self' = Val (return_data_type example_output = Val ot_float))"
proof -
  from assms(3) obtain self1 reports where
    i: "infer_signature predict self exs = (Inr (), self1)" and
    s: "self' = self1\<lparr>formatter := return_transformer_func self1,
                      logger := logger self1 @ map Debug reports\<rparr>"
    by (rule check_output_signature_success)
  let ?s = "self\<lparr>input_shape := Val (shape exs), output_shape := Val (shape outputs)\<rparr>"
  have two: "infer_2d ?s outputs = (Inr (), self1)"
    using infer_signature_success(3) [OF i assms(1)] assms(2) by simp
  then have "model_type self1 = Val classifier \<and>
         n_classes self1 = Val K \<and>
         (\<exists>row0 example_output.
            getitem0 outputs = Inr row0 \<and> getitem0 row0 = Inr example_output \<and>
            probability self1 = Val (return_data_type example_output = Val ot_float))"
    using assms(2) by (auto simp: infer_2d_def Let_def split: sum.splits)
  then show ?thesis by (simp add: s)
qed

text \<open>
  C2 at a concrete input: \<^verbatim>\<open>predict\<close> returns two rows of three float scores.
\<close>

theorem check_output_signature_2d_witness:
  "fst (check_output_signature (predict_const scores_out) (Model_init 30) batch_2x2) = Inr () \<and>
   model_type (snd (check_output_signature (predict_const scores_out) (Model_init 30) batch_2x2))
     = Val classifier \<and>
   n_classes (snd (check_output_signature (predict_const scores_out) (Model_init 30) batch_2x2))
     = Val 3 \<and>
   probability (snd (check_output_signature (predict_const scores_out) (Model_init 30) batch_2x2))
     = Val True"
proof -
  let ?r = "check_output_signature (predict_const scores_out) (Model_init 30) batch_2x2"
  have ok: "fst ?r = Inr ()"
    by (simp add: check_defs scores_out_def batch_2x2_def)
  have h1: "predict_const scores_out batch_2x2 = Inr scores_out"
    by (simp add: predict_const_def)
  have h2: "shape scores_out = [2, 3]"
    by (simp add: scores_out_def)
  from check_output_signature_2d [OF h1 h2 pair_fst_snd [OF ok]]
  have "model_type (snd ?r) = Val classifier \<and> n_classes (snd ?r) = Val 3 \<and>
        probability (snd ?r) = Val True"
    by (auto simp: scores_out_def)
  with ok show ?thesis by simp
qed

text \<open>
  C3: when \<^verbatim>\<open>predict\<close> returns a 1-D array whose first element is a float, a call
  of \<^verbatim>\<open>check_output_signature\<close> that returns leaves \<open>model_type = regressor\<close>,
  \<open>n_classes = 1\<close>, \<open>probability = not_applicable\<close>, and has sent one warning to the
  logger, before the lines of the report.
\<close>

theorem check_output_signature_1d_floats:
  assumes "predict exs = Inr outputs"
    and "length (shape outputs) = 1"
    and "getitem0 outputs = Inr example_output"
    and "return_data_type example_output = Val ot_float"
    and "check_output_signature predict self exs = (Inr (), self')"
  shows "model_type self' = Val regressor \<and>
         n_classes self' = Val 1 \<and>
         probability self' = not_applicable \<and>
         (\<exists>reports. logger self' = logger self @ [Warn regressor_warning] @ map Debug reports)"
proof -
  from assms(5) obtain self1 reports where
    i: "infer_signature predict self exs = (Inr (), self1)" and
    s: "self' = self1\<lparr>formatter := return_transformer_func self1,
                      logger := logger self1 @ map Debug reports\<rparr>"
    by (rule check_output_signature_success)
  let ?s = "self\<lparr>input_shape := Val (shape exs), output_shape := Val (shape outputs)\<rparr>"
  have one: "infer_1d ?s outputs = (Inr (), self1)"
    using infer_signature_success(2) [OF i assms(1) assms(2)] .
  with assms(3,4) have "self1 = ?s\<lparr>output_var_type := Val ot_float, model_type := Val regressor,
         n_classes := Val 1, probability := not_applicable,
         logger := logger self @ [Warn regressor_warning]\<rparr>"
    by (simp add: infer_1d_def Let_def)
  then show ?thesis by (auto simp: s)
qed

text \<open>
  C3 at a concrete input: \<^verbatim>\<open>predict\<close> returns \<^verbatim>\<open>[0.5, 3.0]\<close> to a fresh
  object, whose first logger call is then the warning.
\<close>

theorem check_output_signature_1d_floats_witness:
  "fst (check_output_signature (predict_const floats_out) (Model_init 30) batch_2x2) = Inr () \<and>
   model_type (snd (check_output_signature (predict_const floats_out) (Model_init 30) batch_2x2))
     = Val regressor \<and>
   n_classes (snd (check_output_signature (predict_const floats_out) (Model_init 30) batch_2x2))
     = Val 1 \<and>
   probability (snd (check_output_signature (predict_const floats_out) (Model_init 30) batch_2x2))
     = not_applicable \<and>
   hd (logger (snd (check_output_signature (predict_const floats_out) (Model_init 30) batch_2x2)))
     = Warn regressor_warning"
proof -
  let ?r = "check_output_signature (predict_const floats_out) (Model_init 30) batch_2x2"
  have ok: "fst ?r = Inr ()"
    by (simp add: check_defs floats_out_def batch_2x2_def)
  have h1: "predict_const floats_out batch_2x2 = Inr floats_out"
    by (simp add: predict_const_def)
  have h2: "length (shape floats_out) = 1"
    by (simp add: floats_out_def)
  have h3: "getitem0 floats_out = Inr (NdArray [] (FloatData [1/2]))"
    by (simp add: floats_out_def)
  have h4: "return_data_type (NdArray [] (FloatData [1/2])) = Val ot_float"
    by simp
  from check_output_signature_1d_floats [OF h1 h2 h3 h4 pair_fst_snd [OF ok]]
  have "model_type (snd ?r) = Val regressor \<and> n_classes (snd ?r) = Val 1 \<and>
        probability (snd ?r) = not_applicable \<and> hd (logger (snd ?r)) = Warn regressor_warning"
    by (auto simp: Model_init_def)
  with ok show ?thesis by simp
qed

text \<open>
  C5, at a batch where the code departs from it: a batch of two rows of zeros is not
  empty, yet \<^verbatim>\<open>examples.any()\<close> is false on it and the call raises
  \<^verbatim>\<open>ModelError\<close> (leaving the object unchanged), whatever \<^verbatim>\<open>predict\<close> does.
\<close>

theorem check_output_signature_zero_batch:
  "wf_ndarray (NdArray [2, 2] (FloatData [0, 0, 0, 0])) \<and>
   n_elems (elems (NdArray [2, 2] (FloatData [0, 0, 0, 0]))) = 4 \<and>
   check_output_signature predict self (NdArray [2, 2] (FloatData [0, 0, 0, 0])) =
     (Inl ModelError, self)"
  by (simp add: wf_ndarray_def check_output_signature_def infer_signature_def nd_any_def)

text \<open>
  C6 as stated fails: on an output of rank 3 the call raises \<^verbatim>\<open>ValueError\<close>, but
  \<open>output_shape\<close> and \<open>input_shape\<close> no longer hold their prior values.
\<close>

theorem check_output_signature_rank3_shapes_set:
  "fst (check_output_signature (predict_const cube_out) (Model_init 30) batch_2x2) = Inl ValueError \<and>
   output_shape (snd (check_output_signature (predict_const cube_out) (Model_init 30) batch_2x2))
     = Val [2, 1, 1] \<and>
   output_shape (Model_init 30) = unknown \<and>
   input_shape (snd (check_output_signature (predict_const cube_out) (Model_init 30) batch_2x2))
     = Val [2, 2] \<and>
   input_shape (Model_init 30) = unknown"
  by (simp add: check_defs cube_out_def batch_2x2_def)

text \<open>
  C6, amended: on a batch with a truthy element, when \<^verbatim>\<open>predict\<close> returns an
  array of rank 3 or higher, \<^verbatim>\<open>check_output_signature\<close> raises
  \<^verbatim>\<open>ValueError\<close>; \<open>input_shape\<close> and \<open>output_shape\<close> have been set to the shapes
  of the batch and of the output, and every other attribute (\<open>model_type\<close>,
  \<open>output_var_type\<close>, \<open>n_classes\<close>, \<open>probability\<close>, \<open>formatter\<close>, the logger) keeps its
  prior value.
\<close>

theorem check_output_signature_rank3:
  assumes "nd_any exs = Inr True"
    and "predict exs = Inr outputs"
    and "3 \<le> length (shape outputs)"
  shows "check_output_signature predict self exs =
           (Inl ValueError,
            self\<lparr>input_shape := Val (shape exs), output_shape := Val (shape outputs)\<rparr>)"
  using assms by (simp add: check_output_signature_def infer_signature_def Let_def)

text \<open>C6, amended, at a concrete input: an output of shape \<open>(2, 1, 1)\<close>.\<close>

theorem check_output_signature_rank3_witness:
  "nd_any batch_2x2 = Inr True \<and>
   3 \<le> length (shape cube_out) \<and>
   check_output_signature (predict_const cube_out) (Model_init 30) batch_2x2 =
     (Inl ValueError, (Model_init 30)\<lparr>input_shape := Val [2, 2], output_shape := Val [2, 1, 1]\<rparr>)"
proof -
  have h1: "nd_any batch_2x2 = Inr True"
    by (simp add: nd_any_def batch_2x2_def)
  have h2: "predict_const cube_out batch_2x2 = Inr cube_out"
    by (simp add: predict_const_def)
  have h3: "3 \<le> length (shape cube_out)"
    by (simp add: cube_out_def)
  from check_output_signature_rank3
    [where predict = "predict_const cube_out" and self = "Model_init 30", OF h1 h2 h3] h1 h3
  show ?thesis
    by (simp add: cube_out_def batch_2x2_def)
qed

text \<open>
  C7, at an input where the code departs from it: \<^verbatim>\<open>predict\<close> returns the integer
  array \<^verbatim>\<open>[[0, 1], [1, 0]]\<close>. The call returns with \<open>probability = False\<close>, and the
  formatter it caches is \<^verbatim>\<open>predict_function_transformer\<close>, not the identity: on
  the raw output it raises \<^verbatim>\<open>ValueError\<close>.
\<close>

theorem check_output_signature_2d_int_formatter:
  "fst (check_output_signature (predict_const (NdArray [2, 2] (IntData [0, 1, 1, 0])))
          (Model_init 30) (NdArray [2, 2] (IntData [1, 2, 3, 4]))) = Inr () \<and>
   probability (snd (check_output_signature (predict_const (NdArray [2, 2] (IntData [0, 1, 1, 0])))
          (Model_init 30) (NdArray [2, 2] (IntData [1, 2, 3, 4])))) = Val False \<and>
   formatter (snd (check_output_signature (predict_const (NdArray [2, 2] (IntData [0, 1, 1, 0])))
          (Model_init 30) (NdArray [2, 2] (IntData [1, 2, 3, 4])))) = one_hot_transformer \<and>
   apply_formatter one_hot_transformer (NdArray [2, 2] (IntData [0, 1, 1, 0])) = Inl ValueError"
  by (simp add: check_defs predict_function_transformer_def label_encoder_fit_transform_def
      column_or_1d_def)

section \<open>Claims on the transformers and the report\<close>

text \<open>
  C8: \<^verbatim>\<open>return_transformer_func\<close> depends on \<open>model_type\<close> and \<open>probability\<close>
  only; it returns \<^verbatim>\<open>predict_function_transformer\<close> exactly when
  \<open>model_type = classifier\<close> and \<open>probability = False\<close>, and the identity in every other
  case, the unknown sentinels included.
\<close>

theorem return_transformer_func_selects:
  "return_transformer_func self =
     (if model_type self = Val classifier \<and> probability self = Val False
      then one_hot_transformer else identity_lambda)"
  by (cases "probability self") (auto simp: return_transformer_func_def)

text \<open>
  C8 at concrete states: a fresh object, a classifier of unknown probability, and a
  classifier without probabilities.
\<close>

theorem return_transformer_func_selects_witness:
  "return_transformer_func (Model_init 30) = identity_lambda \<and>
   return_transformer_func ((Model_init 30)\<lparr>model_type := Val classifier\<rparr>) = identity_lambda \<and>
   return_transformer_func ((Model_init 30)\<lparr>model_type := Val classifier, probability := Val False\<rparr>)
     = one_hot_transformer"
  using return_transformer_func_selects [of "Model_init 30"]
    return_transformer_func_selects [of "(Model_init 30)\<lparr>model_type := Val classifier\<rparr>"]
    return_transformer_func_selects
      [of "(Model_init 30)\<lparr>model_type := Val classifier, probability := Val False\<rparr>"]
  by (simp add: Model_init_def)

text \<open>
  C4, at inputs where the code departs from it: two equal labels give a 1-D array of
  two ones, and a single label gives a 0-d array, where the claim has matrices of shape
  \<open>(2, 1)\<close> and \<open>(1, 1)\<close>.
\<close>

theorem predict_function_transformer_single_class:
  "predict_function_transformer (NdArray [2] (StrData [''a'', ''a''])) =
     Inr (NdArray [2] (FloatData [1, 1])) \<and>
   predict_function_transformer (NdArray [1] (IntData [5])) =
     Inr (NdArray [] (FloatData [1]))"
  by (simp add: predict_function_transformer_def label_encoder_fit_transform_def
      column_or_1d_def encode_labels_def one_hot_encoder_fit_transform_def one_hot_row_def
      np_squeeze_def)

text \<open>
  C9: the result of \<^verbatim>\<open>predict_function_transformer\<close> on a 1-D array of labels is
  fixed by the labels alone: it is the (squeezed) matrix whose row \<open>i\<close> is the indicator
  of label \<open>i\<close> over the distinct labels in sorted order, for integer, string and float
  labels alike; with no label at all it raises \<^verbatim>\<open>ValueError\<close>.
\<close>

theorem predict_function_transformer_sorted_columns:
  "predict_function_transformer (NdArray [length xs] (IntData xs)) =
     (if xs = [] then Inl ValueError
      else Inr (np_squeeze (NdArray [length xs, length (remdups xs)]
            (FloatData (concat (map (\<lambda>x. map (\<lambda>c. if x = c then 1 else 0)
                                              (sort (remdups xs))) xs)))))) \<and>
   predict_function_transformer (NdArray [length ss] (StrData ss)) =
     (if ss = [] then Inl ValueError
      else Inr (np_squeeze (NdArray [length ss, length (remdups ss)]
            (FloatData (concat (map (\<lambda>x. map (\<lambda>c. if x = c then 1 else 0)
                                              (sort (remdups ss))) ss)))))) \<and>
   predict_function_transformer (NdArray [length fs] (FloatData fs)) =
     (if fs = [] then Inl ValueError
      else Inr (np_squeeze (NdArray [length fs, length (remdups fs)]
            (FloatData (concat (map (\<lambda>x. map (\<lambda>c. if x = c then 1 else 0)
                                              (sort (remdups fs))) fs))))))"
  by (simp add: predict_function_transformer_def label_encoder_fit_transform_def column_or_1d_def
      one_hot_encode_labels one_hot_encode_no_labels)

text \<open>
  C9 at concrete inputs: the labels \<^verbatim>\<open>[2, 1, 2]\<close> and
  \<^verbatim>\<open>['b', 'a', 'b']\<close>; the column of the smaller label comes first.
\<close>

theorem predict_function_transformer_sorted_columns_witness:
  "predict_function_transformer (NdArray [3] (IntData [2, 1, 2])) =
     Inr (NdArray [3, 2] (FloatData [0, 1, 1, 0, 0, 1])) \<and>
   predict_function_transformer (NdArray [3] (StrData [''b'', ''a'', ''b''])) =
     Inr (NdArray [3, 2] (FloatData [0, 1, 1, 0, 0, 1]))"
  using predict_function_transformer_sorted_columns
    [of "[2, 1, 2]" "[''b'', ''a'', ''b'']" "[]"]
  by (simp add: np_squeeze_def eval_nat_numeral)

text \<open>
  C10, at inputs where the code departs from it: on a fresh object, to which no examples
  were bound, \<open>examples\<close> holds \<^verbatim>\<open>np.array(None)\<close>, which is an
  \<^verbatim>\<open>ndarray\<close>. The report then still has the example and output lines, and
  asked for the bound examples themselves it raises \<^verbatim>\<open>IndexError\<close>.
\<close>

theorem model_report_unbound_examples:
  "examples (Model_init 30) = Ndarray np_array_None \<and>
   model_report (predict_const (NdArray [1] (IntData [7]))) (Model_init 30)
       (NdArray [1, 2] (IntData [1, 2])) =
     Inr [Example (NdArray [2] (IntData [1, 2])), Outputs (NdArray [] (IntData [7])),
          Model_type unknown, Output_Var_Type unknown, Output_Shape unknown,
          N_Classes unknown, Input_Shape unknown, Probability unknown] \<and>
   model_report (predict_const (NdArray [1] (IntData [7]))) (Model_init 30) np_array_None =
     Inl IndexError"
  by (simp add: check_defs np_array_None_def)

end
